theory Spec2Isabelle
  imports Complex_Main "HOL-Library.Log_Nat"
begin

section \<open>Python errors and numpy values\<close>

text \<open>
  The exceptions the modelled code can raise. A fallible operation returns
  \<open>py_error + 'a\<close>, with \<open>Inl\<close> the raised exception.
\<close>

datatype py_error = ValueError | TypeError | OverflowError

definition bind_err :: "py_error + 'a \<Rightarrow> ('a \<Rightarrow> py_error + 'b) \<Rightarrow> py_error + 'b" where
  "bind_err r f = (case r of Inl e \<Rightarrow> Inl e | Inr x \<Rightarrow> f x)"

text \<open>
  A numpy \<open>float64\<close>: a finite value, one of the two infinities, or not-a-number.
  The special values follow IEEE 754 as numpy applies it to arrays (a division by
  zero gives an infinity or NaN and a warning, never an exception). Finite
  arithmetic is exact (no rounding, no overflow of finite results) and zero
  carries no sign.
\<close>

datatype npfloat = Fin real | PInf | NInf | NaN


fun np_neg :: "npfloat \<Rightarrow> npfloat" where
  "np_neg (Fin x) = Fin (- x)"
| "np_neg PInf = NInf"
| "np_neg NInf = PInf"
| "np_neg NaN = NaN"

fun np_add :: "npfloat \<Rightarrow> npfloat \<Rightarrow> npfloat" where
  "np_add (Fin a) (Fin b) = Fin (a + b)"
| "np_add NaN v = NaN"
| "np_add v NaN = NaN"
| "np_add PInf NInf = NaN"
| "np_add NInf PInf = NaN"
| "np_add PInf v = PInf"
| "np_add v PInf = PInf"
| "np_add NInf v = NInf"
| "np_add v NInf = NInf"

definition np_sub :: "npfloat \<Rightarrow> npfloat \<Rightarrow> npfloat" where
  "np_sub a b = np_add a (np_neg b)"

text \<open>The sign of an infinity times a finite factor; zero times infinity is NaN.\<close>

definition inf_times :: "npfloat \<Rightarrow> real \<Rightarrow> npfloat" where
  "inf_times v a = (if 0 < a then v else if a < 0 then np_neg v else NaN)"

fun np_mul :: "npfloat \<Rightarrow> npfloat \<Rightarrow> npfloat" where
  "np_mul (Fin a) (Fin b) = Fin (a * b)"
| "np_mul NaN v = NaN"
| "np_mul v NaN = NaN"
| "np_mul (Fin a) v = inf_times v a"
| "np_mul v (Fin b) = inf_times v b"
| "np_mul PInf v = v"
| "np_mul NInf v = np_neg v"

fun np_div :: "npfloat \<Rightarrow> npfloat \<Rightarrow> npfloat" where
  "np_div (Fin a) (Fin b) =
     (if b \<noteq> 0 then Fin (a / b) else if 0 < a then PInf else if a < 0 then NInf else NaN)"
| "np_div NaN v = NaN"
| "np_div v NaN = NaN"
| "np_div (Fin a) v = Fin 0"
| "np_div v (Fin b) = (if 0 \<le> b then v else np_neg v)"
| "np_div v w = NaN"

fun np_sqrt :: "npfloat \<Rightarrow> npfloat" where
  "np_sqrt (Fin x) = (if 0 \<le> x then Fin (sqrt x) else NaN)"
| "np_sqrt PInf = PInf"
| "np_sqrt v = NaN"

fun np_log :: "npfloat \<Rightarrow> npfloat" where
  "np_log (Fin x) = (if 0 < x then Fin (ln x) else if x = 0 then NInf else NaN)"
| "np_log PInf = PInf"
| "np_log v = NaN"

fun np_log2 :: "npfloat \<Rightarrow> npfloat" where
  "np_log2 (Fin x) = (if 0 < x then Fin (log 2 x) else if x = 0 then NInf else NaN)"
| "np_log2 PInf = PInf"
| "np_log2 v = NaN"

fun np_exp :: "npfloat \<Rightarrow> npfloat" where
  "np_exp (Fin x) = Fin (exp x)"
| "np_exp NInf = Fin 0"
| "np_exp v = v"

fun np_ceil :: "npfloat \<Rightarrow> npfloat" where
  "np_ceil (Fin x) = Fin (of_int \<lceil>x\<rceil>)"
| "np_ceil v = v"

text \<open>\<open>2 ** x\<close> for a float64 exponent.\<close>

fun np_pow2 :: "npfloat \<Rightarrow> npfloat" where
  "np_pow2 (Fin x) = Fin (2 powr x)"
| "np_pow2 NInf = Fin 0"
| "np_pow2 v = v"

text \<open>
  Python's \<open>int(x)\<close> on a float: truncation toward zero; NaN raises ValueError and
  an infinity raises OverflowError.
\<close>

fun py_int :: "npfloat \<Rightarrow> py_error + int" where
  "py_int (Fin x) = Inr (if 0 \<le> x then \<lfloor>x\<rfloor> else \<lceil>x\<rceil>)"
| "py_int NaN = Inl ValueError"
| "py_int v = Inl OverflowError"

section \<open>The time and frequency grid: \<open>DomainConfig\<close>\<close>

text \<open>
  Modelled from the spec: \<open>signal_analysis.get_time\<close>, which is not among the sources.
  The spec gives the time axis as \<open>npts\<close> samples with uniform step \<open>dt\<close>, starting at 0.
\<close>

definition get_time :: "int \<Rightarrow> real \<Rightarrow> real list" where
  "get_time npts dt = map (\<lambda>k. real k * dt) [0..<nat npts]"

text \<open>
  Modelled from the spec: \<open>signal_analysis.get_freq\<close>, which is not among the sources.
  The spec gives the axis as the angular-frequency axis of an \<open>npts\<close>-sample signal, of
  length \<open>npts\<close>, whose first bin is the zero frequency. The bins are spaced
  \<open>2\<pi> / (npts * dt)\<close> apart here; only the length and the zero bin are used below.
\<close>

definition get_freq :: "int \<Rightarrow> real \<Rightarrow> real list" where
  "get_freq npts dt = map (\<lambda>k. 2 * pi * real k / (real_of_int npts * dt)) [0..<nat npts]"

record domain_config =
  u_npts :: int
  u_dt :: real
  u_t :: "real list option"
  u_freq :: "real list option"
  u_freq_sim :: "real list option"
  u_freq_sim_p2 :: "real list option"
  u_freq_mask :: "bool list option"
  u_tp :: "real list option"
  u_freq_p2 :: "real list option"
  u_freq_p4 :: "real list option"
  u_freq_n2 :: "npfloat list option"
  u_freq_n4 :: "npfloat list option"

text \<open>
  The field \<open>u_x\<close> is the attribute \<open>self._x\<close>. A cache field is \<open>None\<close> until its
  property is first read.
\<close>

definition reset_cache :: "'a domain_config_scheme \<Rightarrow> 'a domain_config_scheme" where
  "reset_cache d = d\<lparr>u_t := None, u_freq := None, u_freq_sim := None,
     u_freq_sim_p2 := None, u_freq_mask := None, u_tp := None, u_freq_p2 := None,
     u_freq_p4 := None, u_freq_n2 := None, u_freq_n4 := None\<rparr>"

text \<open>
  \<open>DomainConfig.__init__\<close> and the two setters store what they are given and reset the
  cache. They have no check and raise nothing, so each returns \<open>Inr\<close>.
\<close>

definition DomainConfig_init :: "int \<Rightarrow> real \<Rightarrow> py_error + domain_config" where
  "DomainConfig_init npts dt = Inr (reset_cache
     \<lparr>u_npts = npts, u_dt = dt, u_t = None, u_freq = None, u_freq_sim = None,
      u_freq_sim_p2 = None, u_freq_mask = None, u_tp = None, u_freq_p2 = None,
      u_freq_p4 = None, u_freq_n2 = None, u_freq_n4 = None\<rparr>)"

definition set_npts :: "int \<Rightarrow> 'a domain_config_scheme \<Rightarrow> py_error + 'a domain_config_scheme" where
  "set_npts num_points d = Inr (reset_cache (d\<lparr>u_npts := num_points\<rparr>))"

definition set_dt :: "real \<Rightarrow> 'a domain_config_scheme \<Rightarrow> py_error + 'a domain_config_scheme" where
  "set_dt time_step d = Inr (reset_cache (d\<lparr>u_dt := time_step\<rparr>))"

text \<open>The cached properties: computed on the first read, returned from the cache after.\<close>

definition prop_t :: "'a domain_config_scheme \<Rightarrow> real list \<times> 'a domain_config_scheme" where
  "prop_t d = (case u_t d of
       None \<Rightarrow> (let ts = get_time (u_npts d) (u_dt d) in (ts, d\<lparr>u_t := Some ts\<rparr>))
     | Some ts \<Rightarrow> (ts, d))"

definition prop_freq :: "'a domain_config_scheme \<Rightarrow> real list \<times> 'a domain_config_scheme" where
  "prop_freq d = (case u_freq d of
       None \<Rightarrow> (let fs = get_freq (u_npts d) (u_dt d) in (fs, d\<lparr>u_freq := Some fs\<rparr>))
     | Some fs \<Rightarrow> (fs, d))"

text \<open>\<open>npts_sim = int(2 ** np.ceil(np.log2(2 * self._npts)))\<close>\<close>

definition npts_sim :: "int \<Rightarrow> py_error + int" where
  "npts_sim npts = py_int (np_pow2 (np_ceil (np_log2 (Fin (of_int (2 * npts))))))"

definition prop_freq_sim ::
  "'a domain_config_scheme \<Rightarrow> py_error + (real list \<times> 'a domain_config_scheme)" where
  "prop_freq_sim d = (case u_freq_sim d of
       None \<Rightarrow> bind_err (npts_sim (u_npts d)) (\<lambda>n.
         let fs = get_freq n (u_dt d) in Inr (fs, d\<lparr>u_freq_sim := Some fs\<rparr>))
     | Some fs \<Rightarrow> Inr (fs, d))"

text \<open>The power helpers; \<open>freq[1:]\<close> drops the zero-frequency bin before a negative power.\<close>

definition prop_freq_sim_p2 ::
  "'a domain_config_scheme \<Rightarrow> py_error + (real list \<times> 'a domain_config_scheme)" where
  "prop_freq_sim_p2 d = (case u_freq_sim_p2 d of
       None \<Rightarrow> bind_err (prop_freq_sim d) (\<lambda>(fs, d1).
         let ps = map (\<lambda>w. w ^ 2) fs in Inr (ps, d1\<lparr>u_freq_sim_p2 := Some ps\<rparr>))
     | Some ps \<Rightarrow> Inr (ps, d))"

definition prop_freq_p2 :: "'a domain_config_scheme \<Rightarrow> real list \<times> 'a domain_config_scheme" where
  "prop_freq_p2 d = (case u_freq_p2 d of
       None \<Rightarrow> (let (fs, d1) = prop_freq d; ps = map (\<lambda>w. w ^ 2) fs
                in (ps, d1\<lparr>u_freq_p2 := Some ps\<rparr>))
     | Some ps \<Rightarrow> (ps, d))"

definition prop_freq_p4 :: "'a domain_config_scheme \<Rightarrow> real list \<times> 'a domain_config_scheme" where
  "prop_freq_p4 d = (case u_freq_p4 d of
       None \<Rightarrow> (let (fs, d1) = prop_freq d; ps = map (\<lambda>w. w ^ 4) fs
                in (ps, d1\<lparr>u_freq_p4 := Some ps\<rparr>))
     | Some ps \<Rightarrow> (ps, d))"

definition prop_freq_n2 :: "'a domain_config_scheme \<Rightarrow> npfloat list \<times> 'a domain_config_scheme" where
  "prop_freq_n2 d = (case u_freq_n2 d of
       None \<Rightarrow> (let (fs, d1) = prop_freq d;
                    ps = map (\<lambda>w. np_div (Fin 1) (Fin (w ^ 2))) (drop 1 fs)
                in (ps, d1\<lparr>u_freq_n2 := Some ps\<rparr>))
     | Some ps \<Rightarrow> (ps, d))"

definition prop_freq_n4 :: "'a domain_config_scheme \<Rightarrow> npfloat list \<times> 'a domain_config_scheme" where
  "prop_freq_n4 d = (case u_freq_n4 d of
       None \<Rightarrow> (let (fs, d1) = prop_freq d;
                    ps = map (\<lambda>w. np_div (Fin 1) (Fin (w ^ 4))) (drop 1 fs)
                in (ps, d1\<lparr>u_freq_n4 := Some ps\<rparr>))
     | Some ps \<Rightarrow> (ps, d))"

text \<open>
  A cache field agrees with a computation when it is empty, or holds the value the
  computation returns.
\<close>

definition cached_is :: "'a option \<Rightarrow> py_error + 'a \<Rightarrow> bool" where
  "cached_is c r = (case c of None \<Rightarrow> True | Some x \<Rightarrow> r = Inr x)"

text \<open>
  A cache is consistent when every filled axis is the one its property would compute
  from the stored \<open>npts\<close> and \<open>dt\<close>. (\<open>freq_mask\<close> and \<open>tp\<close> are filled by setters that
  depend on helpers outside the sources, and are not constrained.)
\<close>

definition cache_ok :: "'a domain_config_scheme \<Rightarrow> bool" where
  "cache_ok d \<longleftrightarrow>
     cached_is (u_t d) (Inr (get_time (u_npts d) (u_dt d))) \<and>
     cached_is (u_freq d) (Inr (get_freq (u_npts d) (u_dt d))) \<and>
     cached_is (u_freq_sim d)
       (bind_err (npts_sim (u_npts d)) (\<lambda>n. Inr (get_freq n (u_dt d)))) \<and>
     cached_is (u_freq_sim_p2 d)
       (bind_err (npts_sim (u_npts d)) (\<lambda>n. Inr (map (\<lambda>w. w ^ 2) (get_freq n (u_dt d))))) \<and>
     cached_is (u_freq_p2 d) (Inr (map (\<lambda>w. w ^ 2) (get_freq (u_npts d) (u_dt d)))) \<and>
     cached_is (u_freq_p4 d) (Inr (map (\<lambda>w. w ^ 4) (get_freq (u_npts d) (u_dt d)))) \<and>
     cached_is (u_freq_n2 d)
       (Inr (map (\<lambda>w. np_div (Fin 1) (Fin (w ^ 2))) (drop 1 (get_freq (u_npts d) (u_dt d))))) \<and>
     cached_is (u_freq_n4 d)
       (Inr (map (\<lambda>w. np_div (Fin 1) (Fin (w ^ 4))) (drop 1 (get_freq (u_npts d) (u_dt d)))))"

text \<open>The cache after \<open>_reset_cache\<close>: all ten fields empty.\<close>

definition cache_empty :: "'a domain_config_scheme \<Rightarrow> bool" where
  "cache_empty d \<longleftrightarrow> u_t d = None \<and> u_freq d = None \<and> u_freq_sim d = None \<and>
     u_freq_sim_p2 d = None \<and> u_freq_mask d = None \<and> u_tp d = None \<and>
     u_freq_p2 d = None \<and> u_freq_p4 d = None \<and> u_freq_n2 d = None \<and> u_freq_n4 d = None"

text \<open>
  The public operations of a grid: assigning \<open>npts\<close> or \<open>dt\<close>, and reading a cached
  axis. A sequence of operations stops at the first exception.
\<close>

datatype grid_op =
    SetNpts int | SetDt real
  | GetT | GetFreq | GetFreqSim | GetFreqSimP2 | GetFreqP2 | GetFreqP4 | GetFreqN2 | GetFreqN4

fun apply_grid_op ::
  "grid_op \<Rightarrow> 'a domain_config_scheme \<Rightarrow> py_error + 'a domain_config_scheme" where
  "apply_grid_op (SetNpts n) d = set_npts n d"
| "apply_grid_op (SetDt x) d = set_dt x d"
| "apply_grid_op GetT d = Inr (snd (prop_t d))"
| "apply_grid_op GetFreq d = Inr (snd (prop_freq d))"
| "apply_grid_op GetFreqSim d = bind_err (prop_freq_sim d) (\<lambda>r. Inr (snd r))"
| "apply_grid_op GetFreqSimP2 d = bind_err (prop_freq_sim_p2 d) (\<lambda>r. Inr (snd r))"
| "apply_grid_op GetFreqP2 d = Inr (snd (prop_freq_p2 d))"
| "apply_grid_op GetFreqP4 d = Inr (snd (prop_freq_p4 d))"
| "apply_grid_op GetFreqN2 d = Inr (snd (prop_freq_n2 d))"
| "apply_grid_op GetFreqN4 d = Inr (snd (prop_freq_n4 d))"

fun run_grid_ops ::
  "grid_op list \<Rightarrow> 'a domain_config_scheme \<Rightarrow> py_error + 'a domain_config_scheme" where
  "run_grid_ops [] d = Inr d"
| "run_grid_ops (x # xs) d = bind_err (apply_grid_op x d) (run_grid_ops xs)"

text \<open>The smallest power of two not less than \<open>n\<close>, as the spec words it.\<close>

definition is_next_pow2 :: "nat \<Rightarrow> nat \<Rightarrow> bool" where
  "is_next_pow2 n p \<longleftrightarrow> (\<exists>k. p = 2 ^ k) \<and> n \<le> p \<and> (\<forall>j. n \<le> 2 ^ j \<longrightarrow> p \<le> 2 ^ j)"

section \<open>The evolutionary model state: \<open>ModelConfig\<close>\<close>

text \<open>
  A shape function is called as \<open>func(self.t, *params)\<close> and returns the series, or
  raises. The five functions are constructor arguments.
\<close>

type_synonym shape_func = "real list \<Rightarrow> real list \<Rightarrow> py_error + npfloat list"

record model_config = domain_config +
  mdl_func :: shape_func
  wu_func :: shape_func
  zu_func :: shape_func
  wl_func :: shape_func
  zl_func :: shape_func
  u_mdl :: "npfloat list"
  u_wu :: "npfloat list"
  u_zu :: "npfloat list"
  u_wl :: "npfloat list"
  u_zl :: "npfloat list"
  variance :: "npfloat list"
  variance_dot :: "npfloat list"
  variance_2dot :: "npfloat list"
  variance_bar :: "npfloat list"
  variance_2bar :: "npfloat list"
  u_ce :: "npfloat list"
  u_mle_ac :: "npfloat list"
  u_mle_vel :: "npfloat list"
  u_mle_disp :: "npfloat list"
  u_mzc_ac :: "npfloat list"
  u_mzc_vel :: "npfloat list"
  u_mzc_disp :: "npfloat list"
  u_pmnm_ac :: "npfloat list"
  u_pmnm_vel :: "npfloat list"
  u_pmnm_disp :: "npfloat list"
  u_fas :: "npfloat list"
  mdl_params :: "real list option"
  wu_params :: "real list option"
  zu_params :: "real list option"
  wl_params :: "real list option"
  zl_params :: "real list option"

text \<open>The grid of the spec's test case: 512 samples, step 0.01.\<close>

definition example_grid :: domain_config where
  "example_grid = \<lparr>u_npts = 512, u_dt = 1/100, u_t = None, u_freq = None, u_freq_sim = None,
      u_freq_sim_p2 = None, u_freq_mask = None, u_tp = None, u_freq_p2 = None,
      u_freq_p4 = None, u_freq_n2 = None, u_freq_n4 = None\<rparr>"

text \<open>
  \<open>np.zeros((20, self.npts))\<close> raises ValueError on a negative dimension. Its twenty
  rows are disjoint, so each row is modelled as a list of its own; \<open>fill\<close>, the slice
  assignment \<open>a[:] = v\<close> and \<open>a *= c\<close> change one row in place and no other.
\<close>

definition np_zeros :: "int \<Rightarrow> py_error + npfloat list" where
  "np_zeros n = (if n < 0 then Inl ValueError else Inr (replicate (nat n) (Fin 0)))"

definition np_fill :: "npfloat list \<Rightarrow> npfloat \<Rightarrow> npfloat list" where
  "np_fill a v = replicate (length a) v"

text \<open>
  \<open>a[:] = v\<close> for one-dimensional \<open>a\<close>: \<open>v\<close> must have the length of \<open>a\<close>, or length
  one (it is then broadcast); any other length raises ValueError.
\<close>

definition assign_all :: "npfloat list \<Rightarrow> npfloat list \<Rightarrow> py_error + npfloat list" where
  "assign_all a v =
     (if length v = length a then Inr v
      else if length v = 1 then Inr (replicate (length a) (hd v))
      else Inl ValueError)"

definition ModelConfig_init ::
  "int \<Rightarrow> real \<Rightarrow> shape_func \<Rightarrow> shape_func \<Rightarrow> shape_func \<Rightarrow> shape_func \<Rightarrow> shape_func
     \<Rightarrow> py_error + model_config" where
  "ModelConfig_init npts dt modulating upper_frequency upper_damping
       lower_frequency lower_damping =
     bind_err (np_zeros npts) (\<lambda>z.
       let fs = get_freq npts dt in
       Inr \<lparr>u_npts = npts, u_dt = dt, u_t = None, u_freq = Some fs, u_freq_sim = None,
            u_freq_sim_p2 = None, u_freq_mask = None, u_tp = None, u_freq_p2 = None,
            u_freq_p4 = None, u_freq_n2 = None, u_freq_n4 = None,
            mdl_func = modulating, wu_func = upper_frequency, zu_func = upper_damping,
            wl_func = lower_frequency, zl_func = lower_damping,
            u_mdl = z, u_wu = z, u_zu = z, u_wl = z, u_zl = z,
            variance = z, variance_dot = z, variance_2dot = z, variance_bar = z,
            variance_2bar = z,
            u_ce = z, u_mle_ac = z, u_mle_vel = z, u_mle_disp = z,
            u_mzc_ac = z, u_mzc_vel = z, u_mzc_disp = z,
            u_pmnm_ac = z, u_pmnm_vel = z, u_pmnm_disp = z,
            u_fas = np_fill (map Fin fs) (Fin 0),
            mdl_params = None, wu_params = None, zu_params = None,
            wl_params = None, zl_params = None\<rparr>)"

definition reset_attributes :: "'a model_config_scheme \<Rightarrow> 'a model_config_scheme" where
  "reset_attributes m = m\<lparr>
     u_fas := np_fill (u_fas m) (Fin 0),
     u_ce := np_fill (u_ce m) (Fin 0),
     u_mle_ac := np_fill (u_mle_ac m) (Fin 0),
     u_mle_vel := np_fill (u_mle_vel m) (Fin 0),
     u_mle_disp := np_fill (u_mle_disp m) (Fin 0),
     u_mzc_ac := np_fill (u_mzc_ac m) (Fin 0),
     u_mzc_vel := np_fill (u_mzc_vel m) (Fin 0),
     u_mzc_disp := np_fill (u_mzc_disp m) (Fin 0),
     u_pmnm_ac := np_fill (u_pmnm_ac m) (Fin 0),
     u_pmnm_vel := np_fill (u_pmnm_vel m) (Fin 0),
     u_pmnm_disp := np_fill (u_pmnm_disp m) (Fin 0),
     variance := np_fill (variance m) (Fin 0),
     variance_dot := np_fill (variance_dot m) (Fin 0),
     variance_2dot := np_fill (variance_2dot m) (Fin 0),
     variance_bar := np_fill (variance_bar m) (Fin 0),
     variance_2bar := np_fill (variance_2bar m) (Fin 0)\<rparr>"

text \<open>
  The five setters. Each reads \<open>self.t\<close> (filling its cache), calls the shape function,
  assigns the result into the stored row, records the parameters and resets the derived
  statistics; \<open>wu\<close> and \<open>wl\<close> are then scaled by \<open>2\<pi>\<close>. An exception of the shape function
  or of the assignment leaves the setter before the reset.
\<close>

definition set_mdl :: "real list \<Rightarrow> 'a model_config_scheme \<Rightarrow> py_error + 'a model_config_scheme" where
  "set_mdl params m = (let (ts, m1) = prop_t m in
     bind_err (mdl_func m1 ts params) (\<lambda>v.
     bind_err (assign_all (u_mdl m1) v) (\<lambda>a.
       Inr (reset_attributes (m1\<lparr>u_mdl := a, mdl_params := Some params\<rparr>)))))"

definition set_wu :: "real list \<Rightarrow> 'a model_config_scheme \<Rightarrow> py_error + 'a model_config_scheme" where
  "set_wu params m = (let (ts, m1) = prop_t m in
     bind_err (wu_func m1 ts params) (\<lambda>v.
     bind_err (assign_all (u_wu m1) v) (\<lambda>a.
       Inr (reset_attributes
         (m1\<lparr>u_wu := map (\<lambda>x. np_mul x (Fin (2 * pi))) a, wu_params := Some params\<rparr>)))))"

definition set_wl :: "real list \<Rightarrow> 'a model_config_scheme \<Rightarrow> py_error + 'a model_config_scheme" where
  "set_wl params m = (let (ts, m1) = prop_t m in
     bind_err (wl_func m1 ts params) (\<lambda>v.
     bind_err (assign_all (u_wl m1) v) (\<lambda>a.
       Inr (reset_attributes
         (m1\<lparr>u_wl := map (\<lambda>x. np_mul x (Fin (2 * pi))) a, wl_params := Some params\<rparr>)))))"

definition set_zu :: "real list \<Rightarrow> 'a model_config_scheme \<Rightarrow> py_error + 'a model_config_scheme" where
  "set_zu params m = (let (ts, m1) = prop_t m in
     bind_err (zu_func m1 ts params) (\<lambda>v.
     bind_err (assign_all (u_zu m1) v) (\<lambda>a.
       Inr (reset_attributes (m1\<lparr>u_zu := a, zu_params := Some params\<rparr>)))))"

definition set_zl :: "real list \<Rightarrow> 'a model_config_scheme \<Rightarrow> py_error + 'a model_config_scheme" where
  "set_zl params m = (let (ts, m1) = prop_t m in
     bind_err (zl_func m1 ts params) (\<lambda>v.
     bind_err (assign_all (u_zl m1) v) (\<lambda>a.
       Inr (reset_attributes (m1\<lparr>u_zl := a, zl_params := Some params\<rparr>)))))"

text \<open>The derived statistics of the model, in the order \<open>_reset_attributes\<close> clears them.\<close>

definition extrema_curves :: "'a model_config_scheme \<Rightarrow> npfloat list list" where
  "extrema_curves m = [u_mle_ac m, u_mle_vel m, u_mle_disp m, u_mzc_ac m, u_mzc_vel m,
     u_mzc_disp m, u_pmnm_ac m, u_pmnm_vel m, u_pmnm_disp m]"

definition variances :: "'a model_config_scheme \<Rightarrow> npfloat list list" where
  "variances m = [variance m, variance_dot m, variance_2dot m, variance_bar m, variance_2bar m]"

definition derived_statistics :: "'a model_config_scheme \<Rightarrow> npfloat list list" where
  "derived_statistics m = u_fas m # u_ce m # extrema_curves m @ variances m"

definition all_zero :: "npfloat list \<Rightarrow> bool" where
  "all_zero a \<longleftrightarrow> list_all (\<lambda>x. x = Fin 0) a"

text \<open>The five stored series.\<close>

definition stored_series :: "'a model_config_scheme \<Rightarrow> npfloat list list" where
  "stored_series m = [u_mdl m, u_wu m, u_zu m, u_wl m, u_zl m]"

text \<open>
  An example model: three samples, step 0.5, every quantity shaped by a callable
  \<open>constant(t, pc)\<close> that returns the series with every sample equal to \<open>pc\<close> (any other
  number of arguments is a TypeError of the call).
\<close>

definition example_shape :: shape_func where
  "example_shape t params =
     (case params of [pc] \<Rightarrow> Inr (map (\<lambda>x. Fin pc) t) | _ \<Rightarrow> Inl TypeError)"

definition example_model :: model_config where
  "example_model = projr (ModelConfig_init 3 (1/2) example_shape example_shape example_shape
     example_shape example_shape)"

text \<open>
  An example model in use: every series assigned and every derived statistic computed
  (the values are arbitrary; none of them is zero).
\<close>

definition busy_model :: model_config where
  "busy_model = example_model\<lparr>
     u_mdl := [Fin 1, Fin 2, Fin 3], u_wu := [Fin 4, Fin 5, Fin 6],
     u_zu := [Fin 7, Fin 8, Fin 9], u_wl := [Fin 10, Fin 11, Fin 12],
     u_zl := [Fin 13, Fin 14, Fin 15],
     variance := [Fin 1, Fin 2, Fin 3], variance_dot := [Fin 2, Fin 3, Fin 4],
     variance_2dot := [Fin 3, Fin 4, Fin 5], variance_bar := [Fin 4, Fin 5, Fin 6],
     variance_2bar := [Fin 5, Fin 6, Fin 7],
     u_ce := [Fin 1, Fin 3, Fin 6],
     u_mle_ac := [Fin 1, Fin 2, Fin 3], u_mle_vel := [Fin 2, Fin 3, Fin 4],
     u_mle_disp := [Fin 3, Fin 4, Fin 5],
     u_mzc_ac := [Fin 1, Fin 2, Fin 4], u_mzc_vel := [Fin 2, Fin 3, Fin 5],
     u_mzc_disp := [Fin 3, Fin 4, Fin 6],
     u_pmnm_ac := [Fin 1, Fin 1, Fin 2], u_pmnm_vel := [Fin 1, Fin 2, Fin 2],
     u_pmnm_disp := [Fin 2, Fin 2, Fin 3],
     u_fas := [Fin 9, Fin 8, Fin 7]\<rparr>"







section \<open>Monte Carlo synthesis: \<open>StochasticModel.simulate\<close>\<close>

text \<open>
  A numpy \<open>complex128\<close>: a value with finite parts, or one with an infinite or NaN part.
  The divisors met below are built from the frequency axis, whose entries are finite, so
  a divisor is a \<open>complex\<close>; dividing by zero gives a non-finite value and no exception.
\<close>

datatype npcomplex = CFin complex | CNonFinite

fun c_is_finite :: "npcomplex \<Rightarrow> bool" where
  "c_is_finite (CFin z) = True"
| "c_is_finite CNonFinite = False"



text \<open>
  A two-dimensional array: its number of columns and its rows. The number of columns is
  kept apart because an array of no rows still has a shape.
\<close>

type_synonym 'a array2 = "nat \<times> 'a list list"




definition all_c_finite :: "npcomplex array2 \<Rightarrow> bool" where
  "all_c_finite a \<longleftrightarrow> list_all (list_all c_is_finite) (snd a)"











text \<open>
  The state of a \<open>StochasticModel\<close>: that of the model, the generator, the seed and the
  three ensembles, which do not exist before the first \<open>simulate\<close>.
\<close>

record stochastic_model = model_config +
  rng :: "nat \<Rightarrow> real"
  u_seed :: "int option"
  ac :: "npfloat array2 option"
  vel :: "npfloat array2 option"
  disp :: "npfloat array2 option"
















section \<open>Verified properties\<close>

subsection \<open>The grid\<close>

lemma npts_sim_pos:
  assumes "0 < npts"
  shows "npts_sim npts = Inr (2 ^ ceillog2 (nat (2 * npts)))"
proof -
  let ?n = "nat (2 * npts)"
  have n: "0 < ?n" "real_of_int (2 * npts) = real ?n" using assms by auto
  have "1 \<le> real ?n" using n(1) by linarith
  then have "0 \<le> log 2 (real ?n)" by simp
  then have ge: "0 \<le> \<lceil>log 2 (real ?n)\<rceil>" by linarith
  have eq: "of_int \<lceil>log 2 (real ?n)\<rceil> = real (ceillog2 ?n)"
    using n(1) ge by (simp add: ceillog2_def)
  have "np_log2 (Fin (of_int (2 * npts))) = Fin (log 2 (real ?n))"
    using n by (simp del: of_int_mult of_nat_mult)
  then have "np_pow2 (np_ceil (np_log2 (Fin (of_int (2 * npts))))) = Fin (2 ^ ceillog2 ?n)"
    using eq by (simp add: powr_realpow del: of_int_mult)
  then show ?thesis
    by (simp add: npts_sim_def del: of_int_mult)
qed

lemma is_next_pow2_ceillog2: "0 < n \<Longrightarrow> is_next_pow2 n (2 ^ ceillog2 n)"
  unfolding is_next_pow2_def
  using ceillog2_le_iff[of n] le_two_power_ceillog2[of n] by auto

lemma length_get_time: "length (get_time n dt) = nat n"
  by (simp add: get_time_def)

lemma length_get_freq: "length (get_freq n dt) = nat n"
  by (simp add: get_freq_def)

lemma cached_is_simps:
  "cached_is None r" "cached_is (Some x) r \<longleftrightarrow> r = Inr x"
  by (simp_all add: cached_is_def)

lemma cache_empty_reset: "cache_empty (reset_cache d)"
  by (simp add: cache_empty_def reset_cache_def)

lemma cache_empty_ok: "cache_empty d \<Longrightarrow> cache_ok d"
  by (simp add: cache_empty_def cache_ok_def cached_is_simps)



lemma prop_t_cache: "cache_ok m \<Longrightarrow> cache_ok (snd (prop_t m))"
  by (cases "u_t m") (simp_all add: prop_t_def Let_def cache_ok_def cached_is_simps del: np_div.simps)

lemma prop_t_value: "cache_ok m \<Longrightarrow> fst (prop_t m) = get_time (u_npts m) (u_dt m)"
  by (cases "u_t m") (simp_all add: prop_t_def Let_def cache_ok_def cached_is_simps del: np_div.simps)

lemma prop_freq_npts: "u_npts (snd (prop_freq m)) = u_npts m"
  by (cases "u_freq m") (simp_all add: prop_freq_def Let_def)

lemma prop_freq_dt: "u_dt (snd (prop_freq m)) = u_dt m"
  by (cases "u_freq m") (simp_all add: prop_freq_def Let_def)

lemma prop_freq_cache: "cache_ok m \<Longrightarrow> cache_ok (snd (prop_freq m))"
  by (cases "u_freq m") (simp_all add: prop_freq_def Let_def cache_ok_def cached_is_simps del: np_div.simps)

lemma prop_freq_value: "cache_ok m \<Longrightarrow> fst (prop_freq m) = get_freq (u_npts m) (u_dt m)"
  by (cases "u_freq m") (simp_all add: prop_freq_def Let_def cache_ok_def cached_is_simps del: np_div.simps)

lemma prop_freq_sim_npts:
  "prop_freq_sim m = Inr (fs, m') \<Longrightarrow> u_npts m' = u_npts m \<and> u_dt m' = u_dt m"
  by (cases "u_freq_sim m"; cases "npts_sim (u_npts m)")
     (auto simp: prop_freq_sim_def Let_def bind_err_def)

lemma prop_freq_sim_cache:
  "prop_freq_sim m = Inr (fs, m') \<Longrightarrow> cache_ok m \<Longrightarrow> cache_ok m'"
  by (cases "u_freq_sim m"; cases "npts_sim (u_npts m)")
     (auto simp: prop_freq_sim_def Let_def bind_err_def cache_ok_def cached_is_simps
        simp del: np_div.simps)

lemma prop_freq_sim_value:
  "prop_freq_sim m = Inr (fs, m') \<Longrightarrow> cache_ok m \<Longrightarrow>
     \<exists>n. npts_sim (u_npts m) = Inr n \<and> fs = get_freq n (u_dt m)"
  by (cases "u_freq_sim m"; cases "npts_sim (u_npts m)")
     (auto simp: prop_freq_sim_def Let_def bind_err_def cache_ok_def cached_is_simps
        simp del: np_div.simps)



lemma prop_freq_sim_p2_cache:
  assumes "prop_freq_sim_p2 m = Inr (ps, m')" and ok: "cache_ok m"
  shows "cache_ok m'"
proof (cases "u_freq_sim_p2 m")
  case (Some a)
  with assms show ?thesis by (simp add: prop_freq_sim_p2_def)
next
  case None
  with assms obtain fs m1 where s: "prop_freq_sim m = Inr (fs, m1)"
    and m': "m' = m1\<lparr>u_freq_sim_p2 := Some (map (\<lambda>w. w ^ 2) fs)\<rparr>"
    by (cases "prop_freq_sim m") (auto simp: prop_freq_sim_p2_def Let_def bind_err_def)
  from prop_freq_sim_npts[OF s] prop_freq_sim_cache[OF s ok] prop_freq_sim_value[OF s ok]
  show ?thesis unfolding m'
    by (auto simp: cache_ok_def cached_is_simps bind_err_def simp del: np_div.simps)
qed


lemma prop_freq_p2_cache: "cache_ok m \<Longrightarrow> cache_ok (snd (prop_freq_p2 m))"
  using prop_freq_cache[of m] prop_freq_value[of m] prop_freq_npts[of m] prop_freq_dt[of m]
  by (cases "u_freq_p2 m")
     (simp_all add: prop_freq_p2_def Let_def split_beta cache_ok_def cached_is_simps
       del: np_div.simps)


lemma prop_freq_p4_cache: "cache_ok m \<Longrightarrow> cache_ok (snd (prop_freq_p4 m))"
  using prop_freq_cache[of m] prop_freq_value[of m] prop_freq_npts[of m] prop_freq_dt[of m]
  by (cases "u_freq_p4 m")
     (simp_all add: prop_freq_p4_def Let_def split_beta cache_ok_def cached_is_simps
       del: np_div.simps)


lemma prop_freq_n2_cache: "cache_ok m \<Longrightarrow> cache_ok (snd (prop_freq_n2 m))"
  using prop_freq_cache[of m] prop_freq_value[of m] prop_freq_npts[of m] prop_freq_dt[of m]
  by (cases "u_freq_n2 m")
     (simp_all add: prop_freq_n2_def Let_def split_beta cache_ok_def cached_is_simps
       del: np_div.simps)


lemma prop_freq_n4_cache: "cache_ok m \<Longrightarrow> cache_ok (snd (prop_freq_n4 m))"
  using prop_freq_cache[of m] prop_freq_value[of m] prop_freq_npts[of m] prop_freq_dt[of m]
  by (cases "u_freq_n4 m")
     (simp_all add: prop_freq_n4_def Let_def split_beta cache_ok_def cached_is_simps
       del: np_div.simps)

lemma set_grid_cache:
  "set_npts n d = Inr d' \<Longrightarrow> cache_empty d'" "set_dt x d = Inr d' \<Longrightarrow> cache_empty d'"
  by (auto simp: set_npts_def set_dt_def cache_empty_reset)

lemma apply_grid_op_cache:
  assumes "apply_grid_op x d = Inr d'" and "cache_ok d"
  shows "cache_ok d'"
proof (cases x)
  case GetFreqSim
  with assms show ?thesis
    by (cases "prop_freq_sim d") (auto simp: bind_err_def dest: prop_freq_sim_cache)
next
  case GetFreqSimP2
  with assms show ?thesis
    by (cases "prop_freq_sim_p2 d") (auto simp: bind_err_def dest: prop_freq_sim_p2_cache)
qed (use assms in \<open>auto simp: prop_t_cache prop_freq_cache prop_freq_p2_cache prop_freq_p4_cache
      prop_freq_n2_cache prop_freq_n4_cache dest: set_grid_cache cache_empty_ok\<close>)

lemma run_grid_ops_cache:
  "run_grid_ops ops d = Inr d' \<Longrightarrow> cache_ok d \<Longrightarrow> cache_ok d'"
proof (induction ops arbitrary: d)
  case Nil
  then show ?case by simp
next
  case (Cons x xs)
  then obtain d1 where 1: "apply_grid_op x d = Inr d1" and 2: "run_grid_ops xs d1 = Inr d'"
    by (cases "apply_grid_op x d") (auto simp: bind_err_def)
  from Cons.IH[OF 2 apply_grid_op_cache[OF 1 Cons.prems(2)]] show ?case .
qed

lemma init_cache_empty: "DomainConfig_init npts dt = Inr d \<Longrightarrow> cache_empty d"
  by (auto simp: DomainConfig_init_def cache_empty_reset)

lemma npts_sim_3: "npts_sim 3 = Inr 8"
proof -
  have "ceillog2 6 \<le> 3" by (simp add: ceillog2_le_iff)
  moreover have "\<not> ceillog2 6 \<le> 2" by (simp add: ceillog2_le_iff)
  ultimately have "ceillog2 6 = 3" by linarith
  then show ?thesis using npts_sim_pos[of 3] by simp
qed

text \<open>
  Claim C2. Take any grid the code can produce: one built by the constructor and then
  put through any sequence of assignments to \<open>npts\<close> and \<open>dt\<close> and reads of the cached
  axes. If its \<open>npts\<close> and \<open>dt\<close> are positive, the time axis and the analysis frequency
  axis have length \<open>npts\<close>, and reading \<open>freq_sim\<close> succeeds with an axis whose length is
  the smallest power of two not less than \<open>2 * npts\<close>, hence at least \<open>2 * npts\<close>. The
  lengths of \<open>get_time\<close> and \<open>get_freq\<close> are those the spec gives; the padded length is
  the source's \<open>int(2 ** np.ceil(np.log2(2 * npts)))\<close>; that no axis read before a
  reassignment survives it is the work of \<open>_reset_cache\<close>.
\<close>

theorem grid_axis_lengths:
  assumes "DomainConfig_init npts0 dt0 = Inr d0" and "run_grid_ops ops d0 = Inr d"
    and "0 < u_npts d" and "0 < u_dt d"
  shows "length (fst (prop_t d)) = nat (u_npts d) \<and>
         length (fst (prop_freq d)) = nat (u_npts d) \<and>
         (\<exists>fs d'. prop_freq_sim d = Inr (fs, d') \<and>
            is_next_pow2 (2 * nat (u_npts d)) (length fs) \<and>
            2 * nat (u_npts d) \<le> length fs)"
proof -
  let ?n = "nat (2 * u_npts d)"
  have ok: "cache_ok d"
    using run_grid_ops_cache[OF assms(2)] cache_empty_ok[OF init_cache_empty[OF assms(1)]] .
  have t: "length (fst (prop_t d)) = nat (u_npts d)"
    by (simp add: prop_t_value[OF ok] length_get_time)
  have f: "length (fst (prop_freq d)) = nat (u_npts d)"
    by (simp add: prop_freq_value[OF ok] length_get_freq)
  have n2: "?n = 2 * nat (u_npts d)" "0 < ?n" using assms(3) by auto
  have sim: "npts_sim (u_npts d) = Inr (2 ^ ceillog2 ?n)"
    by (rule npts_sim_pos[OF assms(3)])
  obtain fs d' where r: "prop_freq_sim d = Inr (fs, d')"
    using sim by (cases "u_freq_sim d") (auto simp: prop_freq_sim_def bind_err_def Let_def)
  from prop_freq_sim_value[OF r ok] sim have l: "length fs = 2 ^ ceillog2 ?n"
    by (auto simp: length_get_freq)
  have "is_next_pow2 ?n (length fs)"
    using is_next_pow2_ceillog2[OF n2(2)] l by simp
  then have "is_next_pow2 (2 * nat (u_npts d)) (length fs) \<and> 2 * nat (u_npts d) \<le> length fs"
    using n2(1) by (simp add: is_next_pow2_def)
  with t f r show ?thesis by blast
qed

text \<open>
  An instance: a grid of 3 samples whose three axes are read, then reassigned to 512
  samples of step 0.01.
\<close>

theorem grid_axis_lengths_witness:
  "\<exists>d0 d. DomainConfig_init 3 (1/2) = Inr d0 \<and>
     run_grid_ops [GetT, GetFreq, GetFreqSim, SetNpts 512, SetDt (1/100), GetT] d0 = Inr d \<and>
     0 < u_npts d \<and> 0 < u_dt d \<and>
     length (fst (prop_t d)) = 512 \<and> length (fst (prop_freq d)) = 512 \<and>
     (\<exists>fs d'. prop_freq_sim d = Inr (fs, d') \<and>
        is_next_pow2 1024 (length fs) \<and> 1024 \<le> length fs)"
proof -
  obtain d0 where i: "DomainConfig_init 3 (1/2) = Inr d0"
    by (simp add: DomainConfig_init_def)
  obtain d where r: "run_grid_ops [GetT, GetFreq, GetFreqSim, SetNpts 512, SetDt (1/100), GetT] d0
      = Inr d" and n: "u_npts d = 512" "u_dt d = 1/100"
    using i
    by (auto simp: DomainConfig_init_def reset_cache_def prop_t_def prop_freq_def
        prop_freq_sim_def npts_sim_3 set_npts_def set_dt_def bind_err_def Let_def)
  from grid_axis_lengths[OF i r] n i r show ?thesis by auto
qed

text \<open>
  Claim C3, as the code has it. Constructing a grid and assigning \<open>npts\<close> or \<open>dt\<close> never
  raise: whatever the value, also a non-positive one, it is stored as given, with no
  validation and no coercion, and the cache is left empty.
\<close>

theorem grid_accepts_any_value:
  "(\<exists>d. DomainConfig_init npts dt = Inr d \<and> u_npts d = npts \<and> u_dt d = dt \<and> cache_empty d) \<and>
   (\<exists>d'. set_npts npts d = Inr d' \<and> u_npts d' = npts \<and> u_dt d' = u_dt d \<and> cache_empty d') \<and>
   (\<exists>d'. set_dt dt d = Inr d' \<and> u_npts d' = u_npts d \<and> u_dt d' = dt \<and> cache_empty d')"
  by (simp add: DomainConfig_init_def set_npts_def set_dt_def reset_cache_def cache_empty_def)

text \<open>
  Claim C3 as stated fails: a grid with \<open>npts = 0\<close> and \<open>dt = -1\<close> is constructed, and
  \<open>npts = -3\<close> and \<open>dt = 0\<close> are assigned on the example grid, without any error.
\<close>

theorem grid_rejects_nonpositive_counterexample:
  "\<not> isl (DomainConfig_init 0 (- 1)) \<and> \<not> isl (set_npts (- 3) example_grid) \<and>
   \<not> isl (set_dt 0 example_grid)"
  by (simp add: DomainConfig_init_def set_npts_def set_dt_def)

subsection \<open>The model state\<close>

lemma all_zero_fill: "all_zero (np_fill a (Fin 0))"
  by (simp add: all_zero_def np_fill_def list_all_iff)

lemma length_fill: "length (np_fill a v) = length a"
  by (simp add: np_fill_def)

lemma reset_zero: "list_all all_zero (derived_statistics (reset_attributes m))"
  by (simp add: derived_statistics_def extrema_curves_def variances_def reset_attributes_def
      all_zero_fill)

lemma reset_lengths:
  "map length (derived_statistics (reset_attributes m)) = map length (derived_statistics m)"
  by (simp add: derived_statistics_def extrema_curves_def variances_def reset_attributes_def
      length_fill)

lemma reset_series:
  "u_mdl (reset_attributes m) = u_mdl m" "u_wu (reset_attributes m) = u_wu m"
  "u_zu (reset_attributes m) = u_zu m" "u_wl (reset_attributes m) = u_wl m"
  "u_zl (reset_attributes m) = u_zl m"
  by (simp_all add: reset_attributes_def)

lemma prop_t_frame:
  "prop_t m = (ts, m1) \<Longrightarrow>
     stored_series m1 = stored_series m \<and> derived_statistics m1 = derived_statistics m"
  by (auto simp: prop_t_def Let_def stored_series_def derived_statistics_def
      extrema_curves_def variances_def split: option.splits)

lemma set_mdl_frame:
  assumes "set_mdl params m = Inr m'"
  shows "list_all all_zero (derived_statistics m') \<and>
         map length (derived_statistics m') = map length (derived_statistics m) \<and>
         u_wu m' = u_wu m \<and> u_zu m' = u_zu m \<and> u_wl m' = u_wl m \<and> u_zl m' = u_zl m"
proof -
  obtain ts m1 where p: "prop_t m = (ts, m1)" by (cases "prop_t m")
  from assms p obtain a where
    m': "m' = reset_attributes (m1\<lparr>u_mdl := a, mdl_params := Some params\<rparr>)"
    by (auto simp: set_mdl_def bind_err_def split: sum.splits)
  from prop_t_frame[OF p] have f: "stored_series m1 = stored_series m"
    "derived_statistics m1 = derived_statistics m"
    by simp_all
  have "derived_statistics (m1\<lparr>u_mdl := a, mdl_params := Some params\<rparr>) =
      derived_statistics m1"
    by (simp add: derived_statistics_def extrema_curves_def variances_def)
  then show ?thesis
    unfolding m' using f by (simp add: reset_zero reset_lengths reset_series stored_series_def)
qed

lemma set_wu_frame:
  assumes "set_wu params m = Inr m'"
  shows "list_all all_zero (derived_statistics m') \<and>
         map length (derived_statistics m') = map length (derived_statistics m) \<and>
         u_mdl m' = u_mdl m \<and> u_zu m' = u_zu m \<and> u_wl m' = u_wl m \<and> u_zl m' = u_zl m"
proof -
  obtain ts m1 where p: "prop_t m = (ts, m1)" by (cases "prop_t m")
  from assms p obtain a where
    m': "m' = reset_attributes (m1\<lparr>u_wu := map (\<lambda>x. np_mul x (Fin (2 * pi))) a, wu_params := Some params\<rparr>)"
    by (auto simp: set_wu_def bind_err_def split: sum.splits)
  from prop_t_frame[OF p] have f: "stored_series m1 = stored_series m"
    "derived_statistics m1 = derived_statistics m"
    by simp_all
  have "derived_statistics (m1\<lparr>u_wu := map (\<lambda>x. np_mul x (Fin (2 * pi))) a, wu_params := Some params\<rparr>) =
      derived_statistics m1"
    by (simp add: derived_statistics_def extrema_curves_def variances_def)
  then show ?thesis
    unfolding m' using f by (simp add: reset_zero reset_lengths reset_series stored_series_def)
qed

lemma set_zu_frame:
  assumes "set_zu params m = Inr m'"
  shows "list_all all_zero (derived_statistics m') \<and>
         map length (derived_statistics m') = map length (derived_statistics m) \<and>
         u_mdl m' = u_mdl m \<and> u_wu m' = u_wu m \<and> u_wl m' = u_wl m \<and> u_zl m' = u_zl m"
proof -
  obtain ts m1 where p: "prop_t m = (ts, m1)" by (cases "prop_t m")
  from assms p obtain a where
    m': "m' = reset_attributes (m1\<lparr>u_zu := a, zu_params := Some params\<rparr>)"
    by (auto simp: set_zu_def bind_err_def split: sum.splits)
  from prop_t_frame[OF p] have f: "stored_series m1 = stored_series m"
    "derived_statistics m1 = derived_statistics m"
    by simp_all
  have "derived_statistics (m1\<lparr>u_zu := a, zu_params := Some params\<rparr>) =
      derived_statistics m1"
    by (simp add: derived_statistics_def extrema_curves_def variances_def)
  then show ?thesis
    unfolding m' using f by (simp add: reset_zero reset_lengths reset_series stored_series_def)
qed

lemma set_wl_frame:
  assumes "set_wl params m = Inr m'"
  shows "list_all all_zero (derived_statistics m') \<and>
         map length (derived_statistics m') = map length (derived_statistics m) \<and>
         u_mdl m' = u_mdl m \<and> u_wu m' = u_wu m \<and> u_zu m' = u_zu m \<and> u_zl m' = u_zl m"
proof -
  obtain ts m1 where p: "prop_t m = (ts, m1)" by (cases "prop_t m")
  from assms p obtain a where
    m': "m' = reset_attributes (m1\<lparr>u_wl := map (\<lambda>x. np_mul x (Fin (2 * pi))) a, wl_params := Some params\<rparr>)"
    by (auto simp: set_wl_def bind_err_def split: sum.splits)
  from prop_t_frame[OF p] have f: "stored_series m1 = stored_series m"
    "derived_statistics m1 = derived_statistics m"
    by simp_all
  have "derived_statistics (m1\<lparr>u_wl := map (\<lambda>x. np_mul x (Fin (2 * pi))) a, wl_params := Some params\<rparr>) =
      derived_statistics m1"
    by (simp add: derived_statistics_def extrema_curves_def variances_def)
  then show ?thesis
    unfolding m' using f by (simp add: reset_zero reset_lengths reset_series stored_series_def)
qed

lemma set_zl_frame:
  assumes "set_zl params m = Inr m'"
  shows "list_all all_zero (derived_statistics m') \<and>
         map length (derived_statistics m') = map length (derived_statistics m) \<and>
         u_mdl m' = u_mdl m \<and> u_wu m' = u_wu m \<and> u_zu m' = u_zu m \<and> u_wl m' = u_wl m"
proof -
  obtain ts m1 where p: "prop_t m = (ts, m1)" by (cases "prop_t m")
  from assms p obtain a where
    m': "m' = reset_attributes (m1\<lparr>u_zl := a, zl_params := Some params\<rparr>)"
    by (auto simp: set_zl_def bind_err_def split: sum.splits)
  from prop_t_frame[OF p] have f: "stored_series m1 = stored_series m"
    "derived_statistics m1 = derived_statistics m"
    by simp_all
  have "derived_statistics (m1\<lparr>u_zl := a, zl_params := Some params\<rparr>) =
      derived_statistics m1"
    by (simp add: derived_statistics_def extrema_curves_def variances_def)
  then show ?thesis
    unfolding m' using f by (simp add: reset_zero reset_lengths reset_series stored_series_def)
qed


lemmas example_eval = example_model_def ModelConfig_init_def np_zeros_def bind_err_def
  prop_t_def get_time_def example_shape_def assign_all_def Let_def eval_nat_numeral upt_rec


text \<open>
  Claim C1. Whenever one of the five setters assigns (the shape function and the slice
  assignment did not raise), every derived statistic is zero at every sample and keeps
  its length, and the stored series of the other four quantities are what they were.
  The derived statistics are \<open>fas\<close>, \<open>ce\<close>, the five variance arrays and the extrema-rate
  curves of the three response types, for each the three kinds of rate.
\<close>

theorem setter_zeroes_statistics:
  "(\<forall>m'. set_mdl params m = Inr m' \<longrightarrow>
      list_all all_zero (derived_statistics m') \<and>
      map length (derived_statistics m') = map length (derived_statistics m) \<and>
      u_wu m' = u_wu m \<and> u_zu m' = u_zu m \<and> u_wl m' = u_wl m \<and> u_zl m' = u_zl m) \<and>
   (\<forall>m'. set_wu params m = Inr m' \<longrightarrow>
      list_all all_zero (derived_statistics m') \<and>
      map length (derived_statistics m') = map length (derived_statistics m) \<and>
      u_mdl m' = u_mdl m \<and> u_zu m' = u_zu m \<and> u_wl m' = u_wl m \<and> u_zl m' = u_zl m) \<and>
   (\<forall>m'. set_zu params m = Inr m' \<longrightarrow>
      list_all all_zero (derived_statistics m') \<and>
      map length (derived_statistics m') = map length (derived_statistics m) \<and>
      u_mdl m' = u_mdl m \<and> u_wu m' = u_wu m \<and> u_wl m' = u_wl m \<and> u_zl m' = u_zl m) \<and>
   (\<forall>m'. set_wl params m = Inr m' \<longrightarrow>
      list_all all_zero (derived_statistics m') \<and>
      map length (derived_statistics m') = map length (derived_statistics m) \<and>
      u_mdl m' = u_mdl m \<and> u_wu m' = u_wu m \<and> u_zu m' = u_zu m \<and> u_zl m' = u_zl m) \<and>
   (\<forall>m'. set_zl params m = Inr m' \<longrightarrow>
      list_all all_zero (derived_statistics m') \<and>
      map length (derived_statistics m') = map length (derived_statistics m) \<and>
      u_mdl m' = u_mdl m \<and> u_wu m' = u_wu m \<and> u_zu m' = u_zu m \<and> u_wl m' = u_wl m)"
  using set_mdl_frame[of params m] set_wu_frame[of params m] set_zu_frame[of params m]
    set_wl_frame[of params m] set_zl_frame[of params m]
  by blast


lemmas busy_eval = busy_model_def example_eval derived_statistics_def extrema_curves_def
  variances_def all_zero_def reset_attributes_def np_fill_def

theorem setter_zeroes_statistics_witness:
  "\<not> list_ex all_zero (derived_statistics busy_model) \<and>
   (\<exists>m'. set_mdl [2] busy_model = Inr m' \<and> list_all all_zero (derived_statistics m') \<and>
      u_mdl m' = [Fin 2, Fin 2, Fin 2] \<and>
      u_wu m' = [Fin 4, Fin 5, Fin 6] \<and> u_zu m' = [Fin 7, Fin 8, Fin 9] \<and>
      u_wl m' = [Fin 10, Fin 11, Fin 12] \<and> u_zl m' = [Fin 13, Fin 14, Fin 15]) \<and>
   (\<exists>m'. set_wu [2] busy_model = Inr m' \<and> list_all all_zero (derived_statistics m') \<and>
      u_wu m' = [Fin (4 * pi), Fin (4 * pi), Fin (4 * pi)] \<and>
      u_mdl m' = [Fin 1, Fin 2, Fin 3] \<and> u_zu m' = [Fin 7, Fin 8, Fin 9] \<and>
      u_wl m' = [Fin 10, Fin 11, Fin 12] \<and> u_zl m' = [Fin 13, Fin 14, Fin 15]) \<and>
   (\<exists>m'. set_zu [2] busy_model = Inr m' \<and> list_all all_zero (derived_statistics m') \<and>
      u_zu m' = [Fin 2, Fin 2, Fin 2] \<and>
      u_mdl m' = [Fin 1, Fin 2, Fin 3] \<and> u_wu m' = [Fin 4, Fin 5, Fin 6] \<and>
      u_wl m' = [Fin 10, Fin 11, Fin 12] \<and> u_zl m' = [Fin 13, Fin 14, Fin 15]) \<and>
   (\<exists>m'. set_wl [2] busy_model = Inr m' \<and> list_all all_zero (derived_statistics m') \<and>
      u_wl m' = [Fin (4 * pi), Fin (4 * pi), Fin (4 * pi)] \<and>
      u_mdl m' = [Fin 1, Fin 2, Fin 3] \<and> u_wu m' = [Fin 4, Fin 5, Fin 6] \<and>
      u_zu m' = [Fin 7, Fin 8, Fin 9] \<and> u_zl m' = [Fin 13, Fin 14, Fin 15]) \<and>
   (\<exists>m'. set_zl [2] busy_model = Inr m' \<and> list_all all_zero (derived_statistics m') \<and>
      u_zl m' = [Fin 2, Fin 2, Fin 2] \<and>
      u_mdl m' = [Fin 1, Fin 2, Fin 3] \<and> u_wu m' = [Fin 4, Fin 5, Fin 6] \<and>
      u_zu m' = [Fin 7, Fin 8, Fin 9] \<and> u_wl m' = [Fin 10, Fin 11, Fin 12])"
proof -
  have 0: "\<not> list_ex all_zero (derived_statistics busy_model)"
    by (simp add: busy_eval)
  have s: "u_mdl busy_model = [Fin 1, Fin 2, Fin 3]" "u_wu busy_model = [Fin 4, Fin 5, Fin 6]"
    "u_zu busy_model = [Fin 7, Fin 8, Fin 9]" "u_wl busy_model = [Fin 10, Fin 11, Fin 12]"
    "u_zl busy_model = [Fin 13, Fin 14, Fin 15]"
    by (simp_all add: busy_model_def)
  have 1: "\<exists>m'. set_mdl [2] busy_model = Inr m' \<and> u_mdl m' = [Fin 2, Fin 2, Fin 2]"
    by (simp add: set_mdl_def busy_eval)
  have 2: "\<exists>m'. set_wu [2] busy_model = Inr m' \<and>
      u_wu m' = [Fin (4 * pi), Fin (4 * pi), Fin (4 * pi)]"
    by (simp add: set_wu_def busy_eval)
  have 3: "\<exists>m'. set_zu [2] busy_model = Inr m' \<and> u_zu m' = [Fin 2, Fin 2, Fin 2]"
    by (simp add: set_zu_def busy_eval)
  have 4: "\<exists>m'. set_wl [2] busy_model = Inr m' \<and>
      u_wl m' = [Fin (4 * pi), Fin (4 * pi), Fin (4 * pi)]"
    by (simp add: set_wl_def busy_eval)
  have 5: "\<exists>m'. set_zl [2] busy_model = Inr m' \<and> u_zl m' = [Fin 2, Fin 2, Fin 2]"
    by (simp add: set_zl_def busy_eval)
  show ?thesis
    using 0 1 2 3 4 5 setter_zeroes_statistics[of "[2]" busy_model] unfolding s by blast
qed

















subsection \<open>Synthesis\<close>















subsection \<open>Sequences of operations on a model\<close>



















subsection \<open>The count of realisations\<close>









end
